theory Spec2Isabelle
  imports Main
begin

section \<open>Data model\<close>

text \<open>
  The token response of the identity provider (auth-types: \<open>AccessTokenRequestResponse\<close>),
  the client configuration (\<open>KeycloakClientConfig\<close>) and the two endpoints of the discovery
  document that the services read. Both endpoints are optional in the discovery document.
\<close>

record access_token_request_response =
  access_token :: string
  expires_in :: int
  refresh_expires_in :: int
  refresh_token :: string
  token_type :: string
  id_token :: string
  scope :: string
  session_state :: string
  not_before_policy :: int

record keycloak_client_config =
  clientId :: string
  issuer :: string
  scopes :: "string list"
  signInRedirectUri :: string

record discovery_document =
  tokenEndpoint :: "string option"
  endSessionEndpoint :: "string option"

text \<open>The value \<open>retrieveTokens\<close> returns: each entry is a string or \<open>null\<close>.\<close>

record token_set =
  accessToken :: "string option"
  refreshToken :: "string option"
  idToken :: "string option"

subsection \<open>HTTP: \<open>fetch\<close> and the axios transport\<close>

text \<open>
  A \<open>fetch\<close> call is its URL, method, headers and form fields (the pairs appended to the
  \<open>URLSearchParams\<close>, in order). A response carries a status, a status text, the body as
  text, and what \<open>response.json()\<close> gives: the parsed object or the exception it raises.
\<close>

record fetch_request =
  fetch_url :: string
  fetch_method :: string
  fetch_headers :: "(string \<times> string) list"
  fetch_body :: "(string \<times> string) list"

text \<open>
  An axios request configuration: the \<open>Authorization\<close> header (absent or a string) and the
  flag \<open>_retry\<close> that the response interceptor sets on a request it replays (\<open>undefined\<close>,
  here \<open>False\<close>, on every request that comes from a caller).
\<close>

record request_config =
  url :: string
  http_method :: string
  data :: string
  Authorization :: "string option"
  retry :: bool

record axios_response =
  resp_status :: nat
  resp_data :: string

text \<open>
  Everything the code throws or rejects with: a plain \<open>Error\<close> with its message, the
  \<open>TypeError\<close> of reading a property of \<open>undefined\<close>, and the error of axios, which carries
  the configuration of the request and, when the server answered, its response.
\<close>

datatype js_error =
    Error string
  | TypeError string
  | AxiosError request_config "axios_response option"

record fetch_response =
  status :: nat
  statusText :: string
  body_text :: string
  body_json :: "js_error + access_token_request_response"

text \<open>\<open>response.ok\<close> of the Fetch API: the status is in the range 200 to 299.\<close>

definition ok :: "fetch_response \<Rightarrow> bool" where
  "ok response = (200 \<le> status response \<and> status response \<le> 299)"

text \<open>
  What the axios transport does with a request: it resolves with a response, or it
  rejects, with the response of the server when there is one (a status that is not
  accepted) and with none on a network error or a timeout.
\<close>

datatype adapter_outcome =
    Fulfilled axios_response
  | Rejected "axios_response option"

subsection \<open>The world the services run in\<close>

text \<open>
  The trace lists, in order, the network calls made (\<open>Fetched\<close> by \<open>fetch\<close>,
  \<open>Dispatched\<close> by the axios transport) and the entries into \<open>refreshTokens\<close>; the latter
  are recorded only so that the number of refreshes can be stated.
\<close>

datatype event =
    Fetched fetch_request
  | Dispatched request_config
  | RefreshTokensCalled

text \<open>
  The state: the entries of the secure store, the private fields of the two singletons
  (\<open>AuthTokenService._clientId\<close>, \<open>._tokenEndpoint\<close>, \<open>AuthService._discovery\<close>,
  \<open>._config\<close>, all \<open>null\<close> at start), and the trace.
\<close>

record world =
  store :: "string \<rightharpoonup> string"
  ts_clientId :: "string option"
  ts_tokenEndpoint :: "string option"
  as_discovery :: "discovery_document option"
  as_config :: "keycloak_client_config option"
  trace :: "event list"

text \<open>
  The environment: which reads of the secure store raise (and what, the same for the
  whole run), what \<open>fetch\<close> gives for a request (a rejection or a response) and what the
  axios transport gives, both depending on the calls made so far. Writes to and
  deletions from the secure store are the updates of a key-value map.
\<close>

record env =
  getItemAsync_error :: "string \<Rightarrow> js_error option"
  fetch :: "event list \<Rightarrow> fetch_request \<Rightarrow> js_error + fetch_response"
  adapter :: "event list \<Rightarrow> request_config \<Rightarrow> adapter_outcome"

subsection \<open>JavaScript values\<close>

text \<open>
  \<open>!x\<close> for a value that is a string or \<open>null\<close>: true for \<open>null\<close> and for the empty
  string.
\<close>

definition falsy :: "string option \<Rightarrow> bool" where
  "falsy x = (case x of None \<Rightarrow> True | Some s \<Rightarrow> s = [])"

text \<open>
  Modelled from the spec: \<open>isDef\<close> of \<open>utils\<close>, which is not among the sources; the
  services use it to tell a value from \<open>null\<close> and \<open>undefined\<close>.
\<close>

definition isDef :: "'a option \<Rightarrow> bool" where
  "isDef x = (x \<noteq> None)"

text \<open>A template literal \<open>`${x}`\<close> of a string that may be \<open>undefined\<close>.\<close>

definition template :: "string option \<Rightarrow> string" where
  "template x = (case x of None \<Rightarrow> ''undefined'' | Some s \<Rightarrow> s)"

text \<open>A non-negative integer as a template literal prints it: its decimal digits.\<close>

fun string_of_nat :: "nat \<Rightarrow> string" where
  "string_of_nat n =
     (if n < 10 then [''0123456789'' ! n]
      else string_of_nat (n div 10) @ [''0123456789'' ! (n mod 10)])"

declare string_of_nat.simps [simp del]

section \<open>AuthTokenService\<close>

definition ACCESS_TOKEN :: string where "ACCESS_TOKEN = ''accessToken''"
definition REFRESH_TOKEN :: string where "REFRESH_TOKEN = ''refreshToken''"
definition ID_TOKEN :: string where "ID_TOKEN = ''idToken''"

definition setItemAsync :: "string \<Rightarrow> string \<Rightarrow> world \<Rightarrow> world" where
  "setItemAsync key v w = w\<lparr>store := (store w)(key \<mapsto> v)\<rparr>"

definition deleteItemAsync :: "string \<Rightarrow> world \<Rightarrow> world" where
  "deleteItemAsync key w = w\<lparr>store := (store w)(key := None)\<rparr>"

definition getItemAsync :: "env \<Rightarrow> world \<Rightarrow> string \<Rightarrow> js_error + string option" where
  "getItemAsync e w key =
     (case getItemAsync_error e key of
        Some err \<Rightarrow> Inl err
      | None \<Rightarrow> Inr (store w key))"

definition AuthTokenService_init :: "string \<Rightarrow> string \<Rightarrow> world \<Rightarrow> world" where
  "AuthTokenService_init tokenEndpoint' clientId' w =
     w\<lparr>ts_tokenEndpoint := Some tokenEndpoint', ts_clientId := Some clientId'\<rparr>"

definition storeTokens :: "access_token_request_response \<Rightarrow> world \<Rightarrow> world" where
  "storeTokens r w =
     setItemAsync ID_TOKEN (id_token r)
       (setItemAsync REFRESH_TOKEN (refresh_token r)
         (setItemAsync ACCESS_TOKEN (access_token r) w))"

definition removeTokens :: "world \<Rightarrow> world" where
  "removeTokens w =
     deleteItemAsync ID_TOKEN (deleteItemAsync REFRESH_TOKEN (deleteItemAsync ACCESS_TOKEN w))"

text \<open>
  \<open>retrieveTokens\<close> reads the three keys in order inside a \<open>try\<close>; the first read that
  raises ends it in the \<open>catch\<close>, which returns \<open>null\<close> (here \<open>None\<close>).
\<close>

definition retrieveTokens :: "env \<Rightarrow> world \<Rightarrow> token_set option" where
  "retrieveTokens e w =
     (case getItemAsync e w ACCESS_TOKEN of
        Inl _ \<Rightarrow> None
      | Inr a \<Rightarrow>
          (case getItemAsync e w REFRESH_TOKEN of
             Inl _ \<Rightarrow> None
           | Inr r \<Rightarrow>
               (case getItemAsync e w ID_TOKEN of
                  Inl _ \<Rightarrow> None
                | Inr i \<Rightarrow> Some \<lparr>accessToken = a, refreshToken = r, idToken = i\<rparr>)))"

text \<open>\<open>tokens?.accessToken ?? null\<close>.\<close>

definition getAccessToken :: "env \<Rightarrow> world \<Rightarrow> string option" where
  "getAccessToken e w =
     (case retrieveTokens e w of None \<Rightarrow> None | Some tokens \<Rightarrow> accessToken tokens)"

definition refresh_request :: "string \<Rightarrow> string \<Rightarrow> string \<Rightarrow> fetch_request" where
  "refresh_request endpoint cid rt =
     \<lparr>fetch_url = endpoint, fetch_method = ''POST'',
      fetch_headers = [(''Content-Type'', ''application/x-www-form-urlencoded'')],
      fetch_body = [(''grant_type'', ''refresh_token''), (''client_id'', cid),
                    (''refresh_token'', rt)]\<rparr>"

definition refresh_failed_message :: "fetch_response \<Rightarrow> string" where
  "refresh_failed_message response =
     ''Failed to refresh tokens: '' @ string_of_nat (status response) @ '': '' @
       statusText response @ '' '' @ body_text response"

text \<open>
  \<open>refreshTokens\<close>: the four checks in the order of the source, the POST, and the two
  branches on \<open>response.ok\<close>. A rejection of \<open>fetch\<close> and an exception of
  \<open>response.json()\<close> are not caught: they leave the function as they are.
\<close>

definition refreshTokens ::
  "env \<Rightarrow> world \<Rightarrow> (js_error + access_token_request_response) \<times> world" where
  "refreshTokens e w0 =
     (let w = w0\<lparr>trace := trace w0 @ [RefreshTokensCalled]\<rparr> in
      case retrieveTokens e w of
        None \<Rightarrow> (Inl (Error ''No tokens found''), w)
      | Some tokens \<Rightarrow>
          if falsy (refreshToken tokens) then (Inl (Error ''No refresh token found''), w)
          else if falsy (ts_clientId w) then (Inl (Error ''No client ID found''), w)
          else if falsy (ts_tokenEndpoint w) then (Inl (Error ''No token endpoint found''), w)
          else
            (let request = refresh_request (template (ts_tokenEndpoint w))
                             (the (ts_clientId w)) (the (refreshToken tokens));
                 w1 = w\<lparr>trace := trace w @ [Fetched request]\<rparr>
             in case fetch e (trace w) request of
                  Inl err \<Rightarrow> (Inl err, w1)
                | Inr response \<Rightarrow>
                    if ok response then
                      (case body_json response of
                         Inl err \<Rightarrow> (Inl err, w1)
                       | Inr tokenResponse \<Rightarrow> (Inr tokenResponse, storeTokens tokenResponse w1))
                    else (Inl (Error (refresh_failed_message response)), removeTokens w1)))"

section \<open>AuthService\<close>

definition AuthService_init :: "discovery_document \<Rightarrow> keycloak_client_config \<Rightarrow> world \<Rightarrow> world" where
  "AuthService_init discovery config w = w\<lparr>as_discovery := Some discovery, as_config := Some config\<rparr>"

definition access_token_request ::
  "discovery_document \<Rightarrow> keycloak_client_config \<Rightarrow> string \<Rightarrow> string \<Rightarrow> fetch_request" where
  "access_token_request discovery config authorizationCode codeVerifier =
     \<lparr>fetch_url = template (tokenEndpoint discovery), fetch_method = ''POST'',
      fetch_headers = [(''Content-Type'', ''application/x-www-form-urlencoded'')],
      fetch_body = [(''grant_type'', ''authorization_code''), (''code'', authorizationCode),
                    (''code_verifier'', codeVerifier), (''client_id'', clientId config),
                    (''redirect_uri'', signInRedirectUri config)]\<rparr>"

text \<open>
  \<open>requestAccessToken\<close>: the whole body is inside a \<open>try\<close> whose \<open>catch\<close> returns \<open>null\<close>.
  Between the \<open>fetch\<close> and the \<open>return\<close> there is only \<open>response.json()\<close>: the status of
  the response is not looked at.
\<close>

definition requestAccessToken ::
  "env \<Rightarrow> world \<Rightarrow> string \<Rightarrow> string \<Rightarrow> access_token_request_response option \<times> world" where
  "requestAccessToken e w authorizationCode codeVerifier =
     (case as_discovery w of
        None \<Rightarrow> (None, w)
      | Some discovery \<Rightarrow>
          (case as_config w of
             None \<Rightarrow> (None, w)
           | Some config \<Rightarrow>
               (let request = access_token_request discovery config authorizationCode codeVerifier;
                    w1 = w\<lparr>trace := trace w @ [Fetched request]\<rparr>
                in case fetch e (trace w) request of
                     Inl _ \<Rightarrow> (None, w1)
                   | Inr tokenRequestResponse \<Rightarrow>
                       (case body_json tokenRequestResponse of
                          Inl _ \<Rightarrow> (None, w1)
                        | Inr tokenResponse \<Rightarrow> (Some tokenResponse, w1)))))"

definition end_session_request :: "discovery_document \<Rightarrow> keycloak_client_config \<Rightarrow> string \<Rightarrow> fetch_request" where
  "end_session_request discovery config rt =
     \<lparr>fetch_url = template (endSessionEndpoint discovery), fetch_method = ''POST'',
      fetch_headers = [(''Content-Type'', ''application/x-www-form-urlencoded'')],
      fetch_body = [(''client_id'', clientId config), (''refresh_token'', rt)]\<rparr>"

definition end_session_failed_message :: "fetch_response \<Rightarrow> string" where
  "end_session_failed_message response =
     ''Failed to end session: '' @ string_of_nat (status response) @ '': '' @
       statusText response @ '' '' @ body_text response"

text \<open>\<open>endSession\<close> throws on each missing piece and on a response that is not \<open>ok\<close>.\<close>

definition endSession :: "env \<Rightarrow> world \<Rightarrow> (js_error + unit) \<times> world" where
  "endSession e w =
     (let tokens = retrieveTokens e w in
      if \<not> isDef (as_discovery w) then (Inl (Error ''No discovery found''), w)
      else if \<not> isDef (as_config w) then (Inl (Error ''No config found''), w)
      else if \<not> isDef tokens then (Inl (Error ''No tokens found''), w)
      else if falsy (refreshToken (the tokens)) then (Inl (Error ''No refresh token found''), w)
      else
        (let request = end_session_request (the (as_discovery w)) (the (as_config w))
                         (the (refreshToken (the tokens)));
             w1 = w\<lparr>trace := trace w @ [Fetched request]\<rparr>
         in case fetch e (trace w) request of
              Inl err \<Rightarrow> (Inl err, w1)
            | Inr response \<Rightarrow>
                if ok response then (Inr (), w1)
                else (Inl (Error (end_session_failed_message response)), w1)))"

section \<open>AuthProvider: logout\<close>

text \<open>
  The state of the provider component and the result of \<open>logout\<close> (\<open>AuthLogoutResult\<close>:
  status \<open>success\<close>, or status \<open>failure\<close> with the error).
\<close>

record auth_state =
  loading :: bool
  isAuthenticated :: bool

datatype auth_logout_result =
    LogoutSuccess
  | LogoutFailure js_error

text \<open>
  \<open>logout\<close>: \<open>endSession\<close>, \<open>removeTokens\<close> and \<open>setIsAuthenticated(false)\<close> follow each
  other inside one \<open>try\<close>; the \<open>catch\<close> logs the error and returns the failure result.
\<close>

definition logout :: "env \<Rightarrow> world \<times> auth_state \<Rightarrow> auth_logout_result \<times> world \<times> auth_state" where
  "logout e s =
     (case s of (w, st) \<Rightarrow>
        (case endSession e w of
           (Inl err, w1) \<Rightarrow> (LogoutFailure err, w1, st)
         | (Inr _, w1) \<Rightarrow> (LogoutSuccess, removeTokens w1, st\<lparr>isAuthenticated := False\<rparr>)))"

section \<open>AuthRestService: the two interceptors\<close>

text \<open>\<open>if (token) headers.Authorization = `Bearer ${token}`\<close>.\<close>

definition attach_bearer :: "string option \<Rightarrow> request_config \<Rightarrow> request_config" where
  "attach_bearer token config =
     (if falsy token then config
      else config\<lparr>Authorization := Some (''Bearer '' @ the token)\<rparr>)"

definition request_interceptor :: "env \<Rightarrow> world \<Rightarrow> request_config \<Rightarrow> request_config" where
  "request_interceptor e w config = attach_bearer (getAccessToken e w) config"

text \<open>Neither interceptor touches the flag \<open>_retry\<close>.\<close>

lemma retry_attach_bearer [simp]: "retry (attach_bearer token config) = retry config"
  by (simp add: attach_bearer_def)

lemma retry_request_interceptor [simp]: "retry (request_interceptor e w config) = retry config"
  by (simp add: request_interceptor_def)

text \<open>
  A request through the axios instance: the request interceptor, the transport, and on
  a rejection the response interceptor's error handler. The handler reads
  \<open>error.response.status\<close> first: with no response that read raises a \<open>TypeError\<close>
  (\<open>TypeError p\<close> is the error of reading property \<open>p\<close> of \<open>undefined\<close>). On a first 401 it
  sets \<open>_retry\<close>, refreshes, attaches the token and sends the request through the same
  instance again; a rejection of the refresh is rejected again as it is.
\<close>

function axiosInstance ::
  "env \<Rightarrow> world \<Rightarrow> request_config \<Rightarrow> (js_error + axios_response) \<times> world" where
  "axiosInstance e w config =
     (let config1 = request_interceptor e w config;
          w1 = w\<lparr>trace := trace w @ [Dispatched config1]\<rparr>
      in case adapter e (trace w) config1 of
           Fulfilled response \<Rightarrow> (Inr response, w1)
         | Rejected None \<Rightarrow> (Inl (TypeError ''status''), w1)
         | Rejected (Some response) \<Rightarrow>
             if resp_status response = 401 \<and> \<not> retry config1 then
               (case refreshTokens e w1 of
                  (Inl refreshError, w2) \<Rightarrow> (Inl refreshError, w2)
                | (Inr _, w2) \<Rightarrow>
                    axiosInstance e w2
                      (attach_bearer (getAccessToken e w2) (config1\<lparr>retry := True\<rparr>)))
             else (Inl (AxiosError config1 (Some response)), w1))"
  by pat_completeness auto
termination
  by (relation "measure (\<lambda>(e, w, config). if retry config then 0 else 1)") auto

declare axiosInstance.simps [simp del]

text \<open>What a trace says: the requests sent by the transport, the \<open>fetch\<close> calls, the refreshes.\<close>

fun dispatched :: "event list \<Rightarrow> request_config list" where
  "dispatched [] = []"
| "dispatched (Dispatched c # t) = c # dispatched t"
| "dispatched (_ # t) = dispatched t"

fun fetched :: "event list \<Rightarrow> fetch_request list" where
  "fetched [] = []"
| "fetched (Fetched r # t) = r # fetched t"
| "fetched (_ # t) = fetched t"

definition refreshes :: "event list \<Rightarrow> nat" where
  "refreshes t = count_list t RefreshTokensCalled"

text \<open>
  The request the error handler replays after a refresh that returned \<open>tokenResponse\<close>:
  the request that was sent, with \<open>_retry\<close> set and the bearer of the new access token.
\<close>

definition replayed :: "request_config \<Rightarrow> access_token_request_response \<Rightarrow> request_config" where
  "replayed sent tokenResponse = attach_bearer (Some (access_token tokenResponse)) (sent\<lparr>retry := True\<rparr>)"

section \<open>The error classes of the specification\<close>

text \<open>
  The source throws plain \<open>Error\<close> objects; the message is what tells one failure from
  another. \<open>NotInitializedError\<close> is the class of the two errors that \<open>refreshTokens\<close>
  throws for a client id or a token endpoint that is not set.
\<close>

definition NotInitializedError :: "js_error \<Rightarrow> bool" where
  "NotInitializedError err =
     (err = Error ''No client ID found'' \<or> err = Error ''No token endpoint found'')"

section \<open>Example states and environments\<close>

definition initial_world :: world where
  "initial_world =
     \<lparr>store = Map.empty, ts_clientId = None, ts_tokenEndpoint = None,
      as_discovery = None, as_config = None, trace = []\<rparr>"

definition session_store :: "string \<rightharpoonup> string" where
  "session_store = [ACCESS_TOKEN \<mapsto> ''a1'', REFRESH_TOKEN \<mapsto> ''r1'', ID_TOKEN \<mapsto> ''i1'']"

definition app_config :: keycloak_client_config where
  "app_config =
     \<lparr>clientId = ''app'', issuer = ''https://kc/realms/r'', scopes = [''openid''],
      signInRedirectUri = ''app://callback''\<rparr>"

definition app_discovery :: discovery_document where
  "app_discovery =
     \<lparr>tokenEndpoint = Some ''https://kc/token'', endSessionEndpoint = Some ''https://kc/logout''\<rparr>"

text \<open>A session: both services initialised, three tokens in the store.\<close>

definition logged_in :: world where
  "logged_in =
     AuthTokenService_init ''https://kc/token'' ''app''
       (AuthService_init app_discovery app_config (initial_world\<lparr>store := session_store\<rparr>))"

text \<open>Tokens in the store, but \<open>init\<close> has not run.\<close>

definition stored_only :: world where
  "stored_only = initial_world\<lparr>store := session_store\<rparr>"

definition new_tokens :: access_token_request_response where
  "new_tokens =
     \<lparr>access_token = ''a2'', expires_in = 300, refresh_expires_in = 1800, refresh_token = ''r2'',
      token_type = ''Bearer'', id_token = ''i2'', scope = ''openid'', session_state = ''s'',
      not_before_policy = 0\<rparr>"

text \<open>What the cast of an error document to the token response type holds: no token.\<close>

definition error_document :: access_token_request_response where
  "error_document =
     \<lparr>access_token = [], expires_in = 0, refresh_expires_in = 0, refresh_token = [],
      token_type = [], id_token = [], scope = [], session_state = [], not_before_policy = 0\<rparr>"

definition token_response_200 :: fetch_response where
  "token_response_200 =
     \<lparr>status = 200, statusText = ''OK'', body_text = ''tokens'', body_json = Inr new_tokens\<rparr>"

definition bad_request_400 :: fetch_response where
  "bad_request_400 =
     \<lparr>status = 400, statusText = ''Bad Request'', body_text = ''invalid_grant'',
      body_json = Inr error_document\<rparr>"

definition unauthorized_401 :: axios_response where
  "unauthorized_401 = \<lparr>resp_status = 401, resp_data = ''Unauthorized''\<rparr>"

text \<open>No network: \<open>fetch\<close> rejects and the transport rejects with no response.\<close>

definition offline :: env where
  "offline =
     \<lparr>getItemAsync_error = (\<lambda>_. None),
      fetch = (\<lambda>_ _. Inl (TypeError ''Network request failed'')),
      adapter = (\<lambda>_ _. Rejected None)\<rparr>"

text \<open>The identity provider answers every POST with 400 and a JSON error document.\<close>

definition provider_rejects :: env where
  "provider_rejects =
     \<lparr>getItemAsync_error = (\<lambda>_. None),
      fetch = (\<lambda>_ _. Inr bad_request_400),
      adapter = (\<lambda>_ _. Rejected None)\<rparr>"

text \<open>The token endpoint issues new tokens; the API answers 401 to every request.\<close>

definition api_always_401 :: env where
  "api_always_401 =
     \<lparr>getItemAsync_error = (\<lambda>_. None),
      fetch = (\<lambda>_ _. Inr token_response_200),
      adapter = (\<lambda>_ _. Rejected (Some unauthorized_401))\<rparr>"

text \<open>The read of the refresh token raises.\<close>

definition refresh_token_unreadable :: env where
  "refresh_token_unreadable =
     \<lparr>getItemAsync_error = (\<lambda>key. if key = REFRESH_TOKEN then Some (Error ''Could not decrypt'') else None),
      fetch = (\<lambda>_ _. Inr token_response_200),
      adapter = (\<lambda>_ _. Rejected None)\<rparr>"

definition api_request :: request_config where
  "api_request = \<lparr>url = ''/api/data'', http_method = ''get'', data = [], Authorization = None, retry = False\<rparr>"

section \<open>The secure store\<close>

lemmas token_keys = ACCESS_TOKEN_def REFRESH_TOKEN_def ID_TOKEN_def

lemmas example_defs =
  initial_world_def session_store_def app_config_def app_discovery_def logged_in_def
  stored_only_def new_tokens_def error_document_def token_response_200_def bad_request_400_def
  unauthorized_401_def offline_def provider_rejects_def api_always_401_def
  refresh_token_unreadable_def api_request_def AuthTokenService_init_def AuthService_init_def

lemma falsy_simps [simp]: "falsy None" "falsy (Some s) = (s = [])"
  by (simp_all add: falsy_def)

lemma template_Some [simp]: "template (Some s) = s"
  by (simp add: template_def)

lemma retrieveTokens_eq:
  "retrieveTokens e w =
     (if getItemAsync_error e ACCESS_TOKEN = None \<and> getItemAsync_error e REFRESH_TOKEN = None \<and>
         getItemAsync_error e ID_TOKEN = None
      then Some \<lparr>accessToken = store w ACCESS_TOKEN, refreshToken = store w REFRESH_TOKEN,
                  idToken = store w ID_TOKEN\<rparr>
      else None)"
  by (auto simp: retrieveTokens_def getItemAsync_def split: option.splits)

lemma retrieveTokens_trace [simp]: "retrieveTokens e (w\<lparr>trace := t\<rparr>) = retrieveTokens e w"
  by (simp add: retrieveTokens_eq)

lemma retrieveTokens_reads:
  assumes "retrieveTokens e w = Some tokens"
  shows "getItemAsync_error e ACCESS_TOKEN = None \<and> getItemAsync_error e REFRESH_TOKEN = None \<and>
         getItemAsync_error e ID_TOKEN = None"
  using assms by (simp add: retrieveTokens_eq split: if_splits)

lemma store_storeTokens:
  "store (storeTokens r w) =
     (store w)(ACCESS_TOKEN \<mapsto> access_token r, REFRESH_TOKEN \<mapsto> refresh_token r,
               ID_TOKEN \<mapsto> id_token r)"
  by (simp add: storeTokens_def setItemAsync_def)

lemma store_removeTokens:
  "store (removeTokens w) =
     (store w)(ACCESS_TOKEN := None, REFRESH_TOKEN := None, ID_TOKEN := None)"
  by (simp add: removeTokens_def deleteItemAsync_def)

lemma fetched_append: "fetched (a @ b) = fetched a @ fetched b"
  by (induction a rule: fetched.induct) simp_all

lemma trace_storeTokens [simp]: "trace (storeTokens r w) = trace w"
  by (simp add: storeTokens_def setItemAsync_def)

lemma trace_removeTokens [simp]: "trace (removeTokens w) = trace w"
  by (simp add: removeTokens_def deleteItemAsync_def)

text \<open>
  C7. Store and retrieve round trip: after \<open>storeTokens\<close> of a token response,
  \<open>retrieveTokens\<close> gives the token set of its access, refresh and id token (the reads of
  the store not raising; when one raises, C8 says what \<open>retrieveTokens\<close> returns).
\<close>

theorem storeTokens_retrieveTokens_roundtrip:
  assumes "getItemAsync_error e ACCESS_TOKEN = None"
    and "getItemAsync_error e REFRESH_TOKEN = None"
    and "getItemAsync_error e ID_TOKEN = None"
  shows "retrieveTokens e (storeTokens r w) =
           Some \<lparr>accessToken = Some (access_token r), refreshToken = Some (refresh_token r),
                 idToken = Some (id_token r)\<rparr>"
  using assms by (simp add: retrieveTokens_eq store_storeTokens token_keys)

theorem storeTokens_retrieveTokens_roundtrip_witness:
  "retrieveTokens offline (storeTokens new_tokens logged_in) =
     Some \<lparr>accessToken = Some ''a2'', refreshToken = Some ''r2'', idToken = Some ''i2''\<rparr>"
proof -
  have reads: "getItemAsync_error offline ACCESS_TOKEN = None"
    "getItemAsync_error offline REFRESH_TOKEN = None"
    "getItemAsync_error offline ID_TOKEN = None"
    by (simp_all add: offline_def)
  show ?thesis
    using storeTokens_retrieveTokens_roundtrip [OF reads, of new_tokens logged_in]
    by (simp add: new_tokens_def)
qed

text \<open>
  C8. \<open>retrieveTokens\<close> returns \<open>null\<close> for the whole result exactly when one of the three
  reads raises, and the exception does not leave it (its result is a token set or \<open>null\<close>);
  when every read succeeds it returns the token set of the three entries, \<open>null\<close> for each
  key that the store does not hold.
\<close>

theorem retrieveTokens_null_on_read_exception:
  "(retrieveTokens e w = None \<longleftrightarrow>
      (\<exists>key \<in> {ACCESS_TOKEN, REFRESH_TOKEN, ID_TOKEN}. \<exists>err. getItemAsync e w key = Inl err)) \<and>
   ((\<forall>key \<in> {ACCESS_TOKEN, REFRESH_TOKEN, ID_TOKEN}. \<exists>v. getItemAsync e w key = Inr v) \<longrightarrow>
      retrieveTokens e w =
        Some \<lparr>accessToken = store w ACCESS_TOKEN, refreshToken = store w REFRESH_TOKEN,
              idToken = store w ID_TOKEN\<rparr>)"
  by (auto simp: retrieveTokens_def getItemAsync_def split: option.splits)

theorem retrieveTokens_null_on_read_exception_witness:
  "getItemAsync refresh_token_unreadable logged_in REFRESH_TOKEN = Inl (Error ''Could not decrypt'') \<and>
   retrieveTokens refresh_token_unreadable logged_in = None \<and>
   retrieveTokens offline (deleteItemAsync ID_TOKEN logged_in) =
     Some \<lparr>accessToken = Some ''a1'', refreshToken = Some ''r1'', idToken = None\<rparr>"
proof -
  have raised: "getItemAsync refresh_token_unreadable logged_in REFRESH_TOKEN = Inl (Error ''Could not decrypt'')"
    by (simp add: getItemAsync_def refresh_token_unreadable_def)
  then have "\<exists>key \<in> {ACCESS_TOKEN, REFRESH_TOKEN, ID_TOKEN}. \<exists>err.
      getItemAsync refresh_token_unreadable logged_in key = Inl err"
    by blast
  then have null: "retrieveTokens refresh_token_unreadable logged_in = None"
    using retrieveTokens_null_on_read_exception [of refresh_token_unreadable logged_in] by blast
  have "\<forall>key \<in> {ACCESS_TOKEN, REFRESH_TOKEN, ID_TOKEN}. \<exists>v.
      getItemAsync offline (deleteItemAsync ID_TOKEN logged_in) key = Inr v"
    by (simp add: getItemAsync_def offline_def)
  then have "retrieveTokens offline (deleteItemAsync ID_TOKEN logged_in) =
      Some \<lparr>accessToken = store (deleteItemAsync ID_TOKEN logged_in) ACCESS_TOKEN,
            refreshToken = store (deleteItemAsync ID_TOKEN logged_in) REFRESH_TOKEN,
            idToken = store (deleteItemAsync ID_TOKEN logged_in) ID_TOKEN\<rparr>"
    using retrieveTokens_null_on_read_exception [of offline "deleteItemAsync ID_TOKEN logged_in"]
    by blast
  then have "retrieveTokens offline (deleteItemAsync ID_TOKEN logged_in) =
      Some \<lparr>accessToken = Some ''a1'', refreshToken = Some ''r1'', idToken = None\<rparr>"
    by (simp add: deleteItemAsync_def example_defs token_keys)
  with raised null show ?thesis by simp
qed

section \<open>refreshTokens\<close>

text \<open>
  C1. With the tokens retrievable, a refresh token present, the client id and the token
  endpoint set, and a response to the POST that is not 2xx, \<open>refreshTokens\<close> deletes the
  three entries and throws the error whose message carries the status code, the status
  text and the body; afterwards the store holds none of the three keys.
\<close>

theorem refreshTokens_non_2xx_clears_store:
  assumes "retrieveTokens e w = Some tokens"
    and "refreshToken tokens = Some rt" and "rt \<noteq> []"
    and "ts_clientId w = Some cid" and "cid \<noteq> []"
    and "ts_tokenEndpoint w = Some endpoint" and "endpoint \<noteq> []"
    and "fetch e (trace w @ [RefreshTokensCalled]) (refresh_request endpoint cid rt) = Inr response"
    and "\<not> ok response"
  shows "refreshTokens e w =
           (Inl (Error (''Failed to refresh tokens: '' @ string_of_nat (status response) @ '': '' @
                        statusText response @ '' '' @ body_text response)),
            removeTokens (w\<lparr>trace := trace w @ [RefreshTokensCalled,
                                 Fetched (refresh_request endpoint cid rt)]\<rparr>)) \<and>
         store (snd (refreshTokens e w)) ACCESS_TOKEN = None \<and>
         store (snd (refreshTokens e w)) REFRESH_TOKEN = None \<and>
         store (snd (refreshTokens e w)) ID_TOKEN = None"
  using assms
  by (simp add: refreshTokens_def Let_def refresh_failed_message_def store_removeTokens)

theorem refreshTokens_non_2xx_clears_store_witness:
  "fst (refreshTokens provider_rejects logged_in) =
     Inl (Error ''Failed to refresh tokens: 400: Bad Request invalid_grant'') \<and>
   store (snd (refreshTokens provider_rejects logged_in)) ACCESS_TOKEN = None \<and>
   store (snd (refreshTokens provider_rejects logged_in)) REFRESH_TOKEN = None \<and>
   store (snd (refreshTokens provider_rejects logged_in)) ID_TOKEN = None"
proof -
  have tokens: "retrieveTokens provider_rejects logged_in =
      Some \<lparr>accessToken = Some ''a1'', refreshToken = Some ''r1'', idToken = Some ''i1''\<rparr>"
    by (simp add: retrieveTokens_eq example_defs token_keys)
  have rt: "refreshToken \<lparr>accessToken = Some ''a1'', refreshToken = Some ''r1'', idToken = Some ''i1''\<rparr>
      = Some ''r1''" "''r1'' \<noteq> []"
    by simp_all
  have cid: "ts_clientId logged_in = Some ''app''" "''app'' \<noteq> []"
    by (simp_all add: example_defs)
  have endpoint: "ts_tokenEndpoint logged_in = Some ''https://kc/token''" "''https://kc/token'' \<noteq> []"
    by (simp_all add: example_defs)
  have response: "fetch provider_rejects (trace logged_in @ [RefreshTokensCalled])
      (refresh_request ''https://kc/token'' ''app'' ''r1'') = Inr bad_request_400"
    by (simp add: provider_rejects_def)
  have not_ok: "\<not> ok bad_request_400"
    by (simp add: ok_def bad_request_400_def)
  have digits: "string_of_nat 400 = ''400''"
    by (simp add: string_of_nat.simps)
  show ?thesis
    using refreshTokens_non_2xx_clears_store [OF tokens rt cid endpoint response not_ok]
    by (simp add: bad_request_400_def digits store_removeTokens)
qed

text \<open>
  C9. With the same preconditions and a 2xx response whose body parses, \<open>refreshTokens\<close>
  returns the parsed token response and has stored its three tokens with \<open>storeTokens\<close>:
  each of the three entries holds the new value, whatever it held before.
\<close>

theorem refreshTokens_2xx_stores_and_returns:
  assumes "retrieveTokens e w = Some tokens"
    and "refreshToken tokens = Some rt" and "rt \<noteq> []"
    and "ts_clientId w = Some cid" and "cid \<noteq> []"
    and "ts_tokenEndpoint w = Some endpoint" and "endpoint \<noteq> []"
    and "fetch e (trace w @ [RefreshTokensCalled]) (refresh_request endpoint cid rt) = Inr response"
    and "ok response"
    and "body_json response = Inr tokenResponse"
  shows "refreshTokens e w =
           (Inr tokenResponse,
            storeTokens tokenResponse
              (w\<lparr>trace := trace w @ [RefreshTokensCalled,
                         Fetched (refresh_request endpoint cid rt)]\<rparr>)) \<and>
         store (snd (refreshTokens e w)) ACCESS_TOKEN = Some (access_token tokenResponse) \<and>
         store (snd (refreshTokens e w)) REFRESH_TOKEN = Some (refresh_token tokenResponse) \<and>
         store (snd (refreshTokens e w)) ID_TOKEN = Some (id_token tokenResponse) \<and>
         retrieveTokens e (snd (refreshTokens e w)) =
           Some \<lparr>accessToken = Some (access_token tokenResponse),
                 refreshToken = Some (refresh_token tokenResponse),
                 idToken = Some (id_token tokenResponse)\<rparr>"
proof -
  have run: "refreshTokens e w =
           (Inr tokenResponse,
            storeTokens tokenResponse
              (w\<lparr>trace := trace w @ [RefreshTokensCalled,
                         Fetched (refresh_request endpoint cid rt)]\<rparr>))"
    using assms by (simp add: refreshTokens_def Let_def)
  show ?thesis
    using retrieveTokens_reads [OF assms(1)]
    by (simp add: run store_storeTokens token_keys retrieveTokens_eq)
qed

theorem refreshTokens_2xx_stores_and_returns_witness:
  "fst (refreshTokens api_always_401 logged_in) = Inr new_tokens \<and>
   store (snd (refreshTokens api_always_401 logged_in)) ACCESS_TOKEN = Some ''a2'' \<and>
   store (snd (refreshTokens api_always_401 logged_in)) REFRESH_TOKEN = Some ''r2'' \<and>
   store (snd (refreshTokens api_always_401 logged_in)) ID_TOKEN = Some ''i2''"
proof -
  have tokens: "retrieveTokens api_always_401 logged_in =
      Some \<lparr>accessToken = Some ''a1'', refreshToken = Some ''r1'', idToken = Some ''i1''\<rparr>"
    by (simp add: retrieveTokens_eq example_defs token_keys)
  have rt: "refreshToken \<lparr>accessToken = Some ''a1'', refreshToken = Some ''r1'', idToken = Some ''i1''\<rparr>
      = Some ''r1''" "''r1'' \<noteq> []"
    by simp_all
  have cid: "ts_clientId logged_in = Some ''app''" "''app'' \<noteq> []"
    by (simp_all add: example_defs)
  have endpoint: "ts_tokenEndpoint logged_in = Some ''https://kc/token''" "''https://kc/token'' \<noteq> []"
    by (simp_all add: example_defs)
  have response: "fetch api_always_401 (trace logged_in @ [RefreshTokensCalled])
      (refresh_request ''https://kc/token'' ''app'' ''r1'') = Inr token_response_200"
    by (simp add: api_always_401_def)
  have is_ok: "ok token_response_200"
    by (simp add: ok_def token_response_200_def)
  have parsed: "body_json token_response_200 = Inr new_tokens"
    by (simp add: token_response_200_def)
  show ?thesis
    using refreshTokens_2xx_stores_and_returns [OF tokens rt cid endpoint response is_ok parsed]
    by (simp add: new_tokens_def store_storeTokens token_keys)
qed

text \<open>
  C10. When one of the four precondition checks of \<open>refreshTokens\<close> fails (the retrieval
  returned \<open>null\<close>, the refresh token is absent or empty, the client id or the token
  endpoint is not set), it throws the error of that check, makes no network call and
  leaves the store as it was: the state after differs from the state before only by the
  trace entry of the call itself.
\<close>

theorem refreshTokens_precondition_failure_changes_nothing:
  assumes "retrieveTokens e w = None \<or>
           (\<exists>tokens. retrieveTokens e w = Some tokens \<and>
              (falsy (refreshToken tokens) \<or> falsy (ts_clientId w) \<or> falsy (ts_tokenEndpoint w)))"
  shows "fst (refreshTokens e w) \<in>
           {Inl (Error ''No tokens found''), Inl (Error ''No refresh token found''),
            Inl (Error ''No client ID found''), Inl (Error ''No token endpoint found'')} \<and>
         snd (refreshTokens e w) = w\<lparr>trace := trace w @ [RefreshTokensCalled]\<rparr> \<and>
         fetched (trace (snd (refreshTokens e w))) = fetched (trace w) \<and>
         store (snd (refreshTokens e w)) = store w"
proof (cases "retrieveTokens e w")
  case None
  then show ?thesis by (simp add: refreshTokens_def Let_def fetched_append)
next
  case (Some tokens)
  with assms have "falsy (refreshToken tokens) \<or> falsy (ts_clientId w) \<or> falsy (ts_tokenEndpoint w)"
    by simp
  then consider "falsy (refreshToken tokens)"
    | "\<not> falsy (refreshToken tokens)" "falsy (ts_clientId w)"
    | "\<not> falsy (refreshToken tokens)" "\<not> falsy (ts_clientId w)" "falsy (ts_tokenEndpoint w)"
    by blast
  then show ?thesis
    by cases (simp_all add: Some refreshTokens_def Let_def fetched_append)
qed

theorem refreshTokens_precondition_failure_changes_nothing_witness:
  "fst (refreshTokens refresh_token_unreadable logged_in) = Inl (Error ''No tokens found'') \<and>
   fetched (trace (snd (refreshTokens refresh_token_unreadable logged_in))) = [] \<and>
   store (snd (refreshTokens refresh_token_unreadable logged_in)) = session_store"
proof -
  have null: "retrieveTokens refresh_token_unreadable logged_in = None"
    by (simp add: retrieveTokens_eq refresh_token_unreadable_def)
  then have pre: "retrieveTokens refresh_token_unreadable logged_in = None \<or>
      (\<exists>tokens. retrieveTokens refresh_token_unreadable logged_in = Some tokens \<and>
         (falsy (refreshToken tokens) \<or> falsy (ts_clientId logged_in) \<or>
          falsy (ts_tokenEndpoint logged_in)))"
    by simp
  have thrown: "fst (refreshTokens refresh_token_unreadable logged_in) = Inl (Error ''No tokens found'')"
    by (simp add: refreshTokens_def Let_def null)
  show ?thesis
    using refreshTokens_precondition_failure_changes_nothing [OF pre] thrown
    by (simp add: logged_in_def initial_world_def AuthTokenService_init_def AuthService_init_def)
qed

text \<open>
  C2, as the code has it. Before \<open>init\<close> (client id and token endpoint both \<open>null\<close>)
  \<open>refreshTokens\<close> throws without a network call and without touching the store, and the
  checks on the stored tokens come first: the error is \<open>No tokens found\<close> when the
  retrieval returned \<open>null\<close>, \<open>No refresh token found\<close> when the refresh token is absent
  or empty, and the error of the missing client id only when the tokens were retrieved
  with a refresh token among them.
\<close>

theorem refreshTokens_before_init:
  assumes "ts_clientId w = None" and "ts_tokenEndpoint w = None"
  shows "refreshTokens e w =
           (Inl (Error (case retrieveTokens e w of
                          None \<Rightarrow> ''No tokens found''
                        | Some tokens \<Rightarrow>
                            if falsy (refreshToken tokens) then ''No refresh token found''
                            else ''No client ID found'')),
            w\<lparr>trace := trace w @ [RefreshTokensCalled]\<rparr>) \<and>
         ((\<exists>err. fst (refreshTokens e w) = Inl err \<and> NotInitializedError err) \<longleftrightarrow>
          (\<exists>tokens. retrieveTokens e w = Some tokens \<and> \<not> falsy (refreshToken tokens)))"
proof -
  have run: "refreshTokens e w =
           (Inl (Error (case retrieveTokens e w of
                          None \<Rightarrow> ''No tokens found''
                        | Some tokens \<Rightarrow>
                            if falsy (refreshToken tokens) then ''No refresh token found''
                            else ''No client ID found'')),
            w\<lparr>trace := trace w @ [RefreshTokensCalled]\<rparr>)"
    using assms by (simp add: refreshTokens_def Let_def split: option.splits)
  show ?thesis
    by (simp add: run NotInitializedError_def split: option.splits)
qed

theorem refreshTokens_before_init_witness:
  "refreshTokens offline stored_only =
     (Inl (Error ''No client ID found''), stored_only\<lparr>trace := [RefreshTokensCalled]\<rparr>)"
proof -
  have unset: "ts_clientId stored_only = None" "ts_tokenEndpoint stored_only = None"
    by (simp_all add: stored_only_def initial_world_def)
  show ?thesis
    using refreshTokens_before_init [OF unset, of offline]
    by (simp add: retrieveTokens_eq example_defs token_keys)
qed

text \<open>
  With an empty store and no \<open>init\<close>, the error is the one of the missing refresh token,
  which is not of the class \<open>NotInitializedError\<close>.
\<close>

theorem refreshTokens_before_init_empty_store_counterexample:
  "ts_clientId initial_world = None \<and> ts_tokenEndpoint initial_world = None \<and>
   fst (refreshTokens offline initial_world) = Inl (Error ''No refresh token found'') \<and>
   \<not> NotInitializedError (Error ''No refresh token found'')"
  by (simp add: refreshTokens_def Let_def retrieveTokens_eq NotInitializedError_def
      initial_world_def offline_def)


section \<open>AuthService and logout\<close>

lemma store_endSession: "store (snd (endSession e w)) = store w"
  by (simp add: endSession_def Let_def split: sum.splits)

text \<open>
  What \<open>requestAccessToken\<close> does return \<open>null\<close> for: a missing discovery document or
  configuration, a rejected \<open>fetch\<close>, a body that does not parse.
\<close>

lemma requestAccessToken_null:
  "as_discovery w = None \<Longrightarrow> fst (requestAccessToken e w authorizationCode codeVerifier) = None"
  "as_config w = None \<Longrightarrow> fst (requestAccessToken e w authorizationCode codeVerifier) = None"
  "as_discovery w = Some discovery \<Longrightarrow> as_config w = Some config \<Longrightarrow>
     fetch e (trace w) (access_token_request discovery config authorizationCode codeVerifier) = Inl err \<Longrightarrow>
     fst (requestAccessToken e w authorizationCode codeVerifier) = None"
  "as_discovery w = Some discovery \<Longrightarrow> as_config w = Some config \<Longrightarrow>
     fetch e (trace w) (access_token_request discovery config authorizationCode codeVerifier) = Inr response \<Longrightarrow>
     body_json response = Inl err \<Longrightarrow>
     fst (requestAccessToken e w authorizationCode codeVerifier) = None"
  by (simp_all add: requestAccessToken_def Let_def split: option.splits)

text \<open>
  C4, what the code does. \<open>requestAccessToken\<close> never looks at the status of the
  response: whenever the body parses, it returns the parsed object, also for a response
  that is not 2xx.
\<close>

theorem requestAccessToken_ignores_status:
  assumes "as_discovery w = Some discovery" and "as_config w = Some config"
    and "fetch e (trace w) (access_token_request discovery config authorizationCode codeVerifier) =
           Inr response"
    and "\<not> ok response"
    and "body_json response = Inr tokenResponse"
  shows "fst (requestAccessToken e w authorizationCode codeVerifier) = Some tokenResponse"
  using assms by (simp add: requestAccessToken_def Let_def)

theorem requestAccessToken_ignores_status_witness:
  "status bad_request_400 = 400 \<and>
   fst (requestAccessToken provider_rejects logged_in ''code'' ''verifier'') = Some error_document"
proof -
  have discovery: "as_discovery logged_in = Some app_discovery"
    and config: "as_config logged_in = Some app_config"
    by (simp_all add: logged_in_def AuthTokenService_init_def AuthService_init_def)
  have response: "fetch provider_rejects (trace logged_in)
      (access_token_request app_discovery app_config ''code'' ''verifier'') = Inr bad_request_400"
    by (simp add: provider_rejects_def)
  have not_ok: "\<not> ok bad_request_400"
    by (simp add: ok_def bad_request_400_def)
  have parsed: "body_json bad_request_400 = Inr error_document"
    by (simp add: bad_request_400_def)
  show ?thesis
    using requestAccessToken_ignores_status [OF discovery config response not_ok parsed]
    by (simp add: bad_request_400_def)
qed

text \<open>
  C3, as the code has it. When \<open>endSession\<close> fails, \<open>logout\<close> returns the failure result
  with that error and nothing else happens: the three stored tokens and
  \<open>isAuthenticated\<close> are what they were.
\<close>

theorem logout_failure_keeps_local_state:
  assumes "fst (endSession e w) = Inl err"
  shows "logout e (w, st) = (LogoutFailure err, snd (endSession e w), st) \<and>
         store (snd (endSession e w)) = store w"
proof -
  obtain result w1 where run: "endSession e w = (result, w1)"
    by (cases "endSession e w")
  with assms have failed: "result = Inl err" by simp
  have "store w1 = store w"
    using store_endSession [of e w] by (simp add: run)
  then show ?thesis
    by (simp add: logout_def run failed)
qed

theorem logout_failure_keeps_local_state_witness:
  "logout offline (initial_world, \<lparr>loading = False, isAuthenticated = True\<rparr>) =
     (LogoutFailure (Error ''No discovery found''), initial_world,
      \<lparr>loading = False, isAuthenticated = True\<rparr>)"
proof -
  have run: "endSession offline initial_world = (Inl (Error ''No discovery found''), initial_world)"
    by (simp add: endSession_def isDef_def initial_world_def)
  then have failed: "fst (endSession offline initial_world) = Inl (Error ''No discovery found'')"
    by simp
  show ?thesis
    using logout_failure_keeps_local_state [OF failed, of "\<lparr>loading = False, isAuthenticated = True\<rparr>"]
    by (simp add: run)
qed

text \<open>
  A session whose end-session request is answered with 400: \<open>logout\<close> returns the
  failure, the three tokens are still in the store and \<open>isAuthenticated\<close> is still true.
\<close>

theorem logout_end_session_400_counterexample:
  "fst (endSession provider_rejects logged_in) =
     Inl (Error ''Failed to end session: 400: Bad Request invalid_grant'') \<and>
   fst (logout provider_rejects (logged_in, \<lparr>loading = False, isAuthenticated = True\<rparr>)) =
     LogoutFailure (Error ''Failed to end session: 400: Bad Request invalid_grant'') \<and>
   store (fst (snd (logout provider_rejects (logged_in, \<lparr>loading = False, isAuthenticated = True\<rparr>)))) =
     [ACCESS_TOKEN \<mapsto> ''a1'', REFRESH_TOKEN \<mapsto> ''r1'', ID_TOKEN \<mapsto> ''i1''] \<and>
   isAuthenticated (snd (snd (logout provider_rejects
     (logged_in, \<lparr>loading = False, isAuthenticated = True\<rparr>)))) = True"
proof -
  have digits: "string_of_nat 400 = ''400''"
    by (simp add: string_of_nat.simps)
  have run: "endSession provider_rejects logged_in =
      (Inl (Error ''Failed to end session: 400: Bad Request invalid_grant''),
       logged_in\<lparr>trace := [Fetched (end_session_request app_discovery app_config ''r1'')]\<rparr>)"
    by (simp add: endSession_def Let_def isDef_def retrieveTokens_eq example_defs token_keys
        ok_def end_session_failed_message_def digits)
  show ?thesis
    by (simp add: logout_def run) (simp add: example_defs)
qed


section \<open>The gateway\<close>

lemma dispatched_append [simp]: "dispatched (a @ b) = dispatched a @ dispatched b"
  by (induction a rule: dispatched.induct) simp_all

lemma refreshes_simps [simp]:
  "refreshes [] = 0"
  "refreshes (RefreshTokensCalled # t) = Suc (refreshes t)"
  "refreshes (Fetched r # t) = refreshes t"
  "refreshes (Dispatched c # t) = refreshes t"
  by (simp_all add: refreshes_def)

lemma refreshes_append [simp]: "refreshes (a @ b) = refreshes a + refreshes b"
  by (induction a) (simp_all add: refreshes_def)

text \<open>A call of \<open>refreshTokens\<close> is one refresh and sends nothing through the transport.\<close>

lemma refreshTokens_trace:
  "dispatched (trace (snd (refreshTokens e w))) = dispatched (trace w) \<and>
   refreshes (trace (snd (refreshTokens e w))) = refreshes (trace w) + 1"
  by (simp add: refreshTokens_def Let_def split: option.splits sum.splits)

text \<open>After a refresh that succeeded, the access token read back is the new one.\<close>

lemma refreshTokens_success_token:
  assumes "refreshTokens e w = (Inr tokenResponse, w2)"
  shows "getAccessToken e w2 = Some (access_token tokenResponse)"
proof -
  from assms obtain tokens where tokens: "retrieveTokens e w = Some tokens"
    by (auto simp: refreshTokens_def Let_def split: option.splits)
  from assms tokens obtain w1 where "w2 = storeTokens tokenResponse w1"
    by (auto simp: refreshTokens_def Let_def split: if_splits sum.splits)
  then show ?thesis
    using retrieveTokens_reads [OF tokens]
    by (simp add: getAccessToken_def retrieveTokens_eq store_storeTokens token_keys)
qed

lemma request_interceptor_attached:
  "request_interceptor e w (attach_bearer (getAccessToken e w) config) =
     attach_bearer (getAccessToken e w) config"
  by (simp add: request_interceptor_def attach_bearer_def)

text \<open>The outcomes of a request, one lemma for each path through the instance.\<close>

lemma axiosInstance_fulfilled:
  assumes "adapter e (trace w) (request_interceptor e w config) = Fulfilled response"
  shows "axiosInstance e w config =
           (Inr response, w\<lparr>trace := trace w @ [Dispatched (request_interceptor e w config)]\<rparr>)"
  using assms by (subst axiosInstance.simps) (simp add: Let_def)

lemma axiosInstance_no_response:
  assumes "adapter e (trace w) (request_interceptor e w config) = Rejected None"
  shows "axiosInstance e w config =
           (Inl (TypeError ''status''),
            w\<lparr>trace := trace w @ [Dispatched (request_interceptor e w config)]\<rparr>)"
  using assms by (subst axiosInstance.simps) (simp add: Let_def)

text \<open>
  An error that carries a response and is not a first 401 (another status, or a request
  that was already replayed) reaches the caller as it is.
\<close>

lemma axiosInstance_other_error:
  assumes "adapter e (trace w) (request_interceptor e w config) = Rejected (Some response)"
    and "resp_status response \<noteq> 401 \<or> retry config"
  shows "axiosInstance e w config =
           (Inl (AxiosError (request_interceptor e w config) (Some response)),
            w\<lparr>trace := trace w @ [Dispatched (request_interceptor e w config)]\<rparr>)"
  using assms by (subst axiosInstance.simps) (auto simp add: Let_def)

text \<open>When the refresh of the 401 path throws, its error is what reaches the caller.\<close>

lemma axiosInstance_refresh_error:
  assumes "adapter e (trace w) (request_interceptor e w config) = Rejected (Some response)"
    and "resp_status response = 401" and "\<not> retry config"
    and "refreshTokens e (w\<lparr>trace := trace w @ [Dispatched (request_interceptor e w config)]\<rparr>) =
           (Inl refreshError, w2)"
  shows "axiosInstance e w config = (Inl refreshError, w2)"
  using assms by (subst axiosInstance.simps) (simp add: Let_def)

lemma axiosInstance_retried:
  assumes "retry config"
  shows "axiosInstance e w config =
     (case adapter e (trace w) (request_interceptor e w config) of
        Fulfilled response \<Rightarrow> Inr response
      | Rejected None \<Rightarrow> Inl (TypeError ''status'')
      | Rejected (Some response) \<Rightarrow>
          Inl (AxiosError (request_interceptor e w config) (Some response)),
      w\<lparr>trace := trace w @ [Dispatched (request_interceptor e w config)]\<rparr>)"
  using assms
  by (subst axiosInstance.simps) (simp add: Let_def split: adapter_outcome.splits option.splits)

lemma axiosInstance_replay:
  assumes "adapter e (trace w) (request_interceptor e w config) = Rejected (Some response)"
    and "resp_status response = 401" and "\<not> retry config"
    and "refreshTokens e (w\<lparr>trace := trace w @ [Dispatched (request_interceptor e w config)]\<rparr>) =
           (Inr tokenResponse, w2)"
  shows "axiosInstance e w config =
           (case adapter e (trace w2) (replayed (request_interceptor e w config) tokenResponse) of
              Fulfilled response2 \<Rightarrow> Inr response2
            | Rejected None \<Rightarrow> Inl (TypeError ''status'')
            | Rejected (Some response2) \<Rightarrow>
                Inl (AxiosError (replayed (request_interceptor e w config) tokenResponse)
                       (Some response2)),
            w2\<lparr>trace := trace w2 @
                   [Dispatched (replayed (request_interceptor e w config) tokenResponse)]\<rparr>)"
proof -
  let ?again = "attach_bearer (getAccessToken e w2) ((request_interceptor e w config)\<lparr>retry := True\<rparr>)"
  have token: "getAccessToken e w2 = Some (access_token tokenResponse)"
    using assms(4) by (rule refreshTokens_success_token)
  have "axiosInstance e w config = axiosInstance e w2 ?again"
    using assms by (subst axiosInstance.simps) (simp add: Let_def)
  also have "\<dots> =
      (case adapter e (trace w2) ?again of
         Fulfilled response2 \<Rightarrow> Inr response2
       | Rejected None \<Rightarrow> Inl (TypeError ''status'')
       | Rejected (Some response2) \<Rightarrow> Inl (AxiosError ?again (Some response2)),
       w2\<lparr>trace := trace w2 @ [Dispatched ?again]\<rparr>)"
    using axiosInstance_retried [of ?again e w2]
    unfolding request_interceptor_attached by simp
  finally show ?thesis
    unfolding replayed_def token .
qed

text \<open>The bounds for every request that comes from a caller.\<close>

lemma axiosInstance_bounds:
  assumes "\<not> retry config"
  shows "refreshes (trace (snd (axiosInstance e w config))) \<le> refreshes (trace w) + 1 \<and>
         length (dispatched (trace (snd (axiosInstance e w config)))) \<le>
           length (dispatched (trace w)) + 2"
proof (cases "adapter e (trace w) (request_interceptor e w config)")
  case (Fulfilled response)
  then show ?thesis by (simp add: axiosInstance_fulfilled)
next
  case (Rejected answer)
  show ?thesis
  proof (cases answer)
    case None
    with Rejected show ?thesis by (simp add: axiosInstance_no_response)
  next
    case (Some response)
    note rejected = Rejected [unfolded Some]
    show ?thesis
    proof (cases "resp_status response = 401")
      case False
      with rejected show ?thesis by (simp add: axiosInstance_other_error)
    next
      case True
      let ?w1 = "w\<lparr>trace := trace w @ [Dispatched (request_interceptor e w config)]\<rparr>"
      obtain result w2 where refresh: "refreshTokens e ?w1 = (result, w2)"
        by (cases "refreshTokens e ?w1")
      have w2: "dispatched (trace w2) = dispatched (trace w) @ [request_interceptor e w config]"
        "refreshes (trace w2) = refreshes (trace w) + 1"
        using refreshTokens_trace [of e ?w1] by (simp_all add: refresh)
      show ?thesis
      proof (cases result)
        case (Inl refreshError)
        show ?thesis
          using axiosInstance_refresh_error [OF rejected True assms refresh [unfolded Inl]] w2
          by simp
      next
        case (Inr tokenResponse)
        show ?thesis
          using axiosInstance_replay [OF rejected True assms refresh [unfolded Inr]] w2
          by simp
      qed
    qed
  qed
qed


text \<open>
  C5. A request that comes from a caller (\<open>_retry\<close> not set) causes at most one call of
  \<open>refreshTokens\<close> and is sent at most twice. When its first response is a 401 there is
  exactly one refresh; when that refresh succeeds the request is sent exactly once more,
  marked as retried and with the bearer of the new access token; and when the replayed
  request is rejected again, that second error is the result, with no further refresh
  and no further request.
\<close>

theorem gateway_one_refresh_one_replay:
  assumes "\<not> retry config"
  shows "refreshes (trace (snd (axiosInstance e w config))) \<le> refreshes (trace w) + 1 \<and>
         length (dispatched (trace (snd (axiosInstance e w config)))) \<le>
           length (dispatched (trace w)) + 2 \<and>
         (adapter e (trace w) (request_interceptor e w config) = Rejected (Some response) \<and>
          resp_status response = 401 \<longrightarrow>
            refreshes (trace (snd (axiosInstance e w config))) = refreshes (trace w) + 1 \<and>
            (refreshTokens e (w\<lparr>trace := trace w @ [Dispatched (request_interceptor e w config)]\<rparr>) =
               (Inr tokenResponse, w2) \<longrightarrow>
               dispatched (trace (snd (axiosInstance e w config))) =
                 dispatched (trace w) @
                   [request_interceptor e w config,
                    replayed (request_interceptor e w config) tokenResponse] \<and>
               retry (replayed (request_interceptor e w config) tokenResponse) \<and>
               (access_token tokenResponse \<noteq> [] \<longrightarrow>
                  Authorization (replayed (request_interceptor e w config) tokenResponse) =
                    Some (''Bearer '' @ access_token tokenResponse)) \<and>
               (adapter e (trace w2) (replayed (request_interceptor e w config) tokenResponse) =
                  Rejected (Some response2) \<longrightarrow>
                  axiosInstance e w config =
                    (Inl (AxiosError (replayed (request_interceptor e w config) tokenResponse)
                            (Some response2)),
                     w2\<lparr>trace := trace w2 @
                       [Dispatched (replayed (request_interceptor e w config) tokenResponse)]\<rparr>))))"
proof -
  let ?sent = "request_interceptor e w config"
  let ?w1 = "w\<lparr>trace := trace w @ [Dispatched ?sent]\<rparr>"
  have one_refresh: "refreshes (trace (snd (axiosInstance e w config))) = refreshes (trace w) + 1"
    if first: "adapter e (trace w) ?sent = Rejected (Some response)" "resp_status response = 401"
  proof -
    obtain result w' where refresh: "refreshTokens e ?w1 = (result, w')"
      by (cases "refreshTokens e ?w1")
    have after: "refreshes (trace w') = refreshes (trace w) + 1"
      using refreshTokens_trace [of e ?w1] by (simp add: refresh)
    show ?thesis
    proof (cases result)
      case (Inl refreshError)
      show ?thesis
        using axiosInstance_refresh_error [OF first assms refresh [unfolded Inl]] after by simp
    next
      case (Inr tr)
      show ?thesis
        using axiosInstance_replay [OF first assms refresh [unfolded Inr]] after by simp
    qed
  qed
  have replay: "dispatched (trace (snd (axiosInstance e w config))) =
        dispatched (trace w) @ [?sent, replayed ?sent tokenResponse] \<and>
      (adapter e (trace w2) (replayed ?sent tokenResponse) = Rejected (Some response2) \<longrightarrow>
         axiosInstance e w config =
           (Inl (AxiosError (replayed ?sent tokenResponse) (Some response2)),
            w2\<lparr>trace := trace w2 @ [Dispatched (replayed ?sent tokenResponse)]\<rparr>))"
    if first: "adapter e (trace w) ?sent = Rejected (Some response)" "resp_status response = 401"
      and refresh: "refreshTokens e ?w1 = (Inr tokenResponse, w2)"
  proof -
    have "dispatched (trace w2) = dispatched (trace w) @ [?sent]"
      using refreshTokens_trace [of e ?w1] by (simp add: refresh)
    then show ?thesis
      using axiosInstance_replay [OF first assms refresh] by simp
  qed
  have marked: "retry (replayed ?sent tokenResponse)"
    by (simp add: replayed_def)
  have bearer: "Authorization (replayed ?sent tokenResponse) =
      Some (''Bearer '' @ access_token tokenResponse)"
    if "access_token tokenResponse \<noteq> []"
    using that by (simp add: replayed_def attach_bearer_def)
  show ?thesis
    using axiosInstance_bounds [OF assms, of e w] one_refresh replay marked bearer by blast
qed

theorem gateway_one_refresh_one_replay_witness:
  "\<not> retry api_request \<and>
   refreshes (trace (snd (axiosInstance api_always_401 logged_in api_request))) = 1 \<and>
   dispatched (trace (snd (axiosInstance api_always_401 logged_in api_request))) =
     [api_request\<lparr>Authorization := Some ''Bearer a1''\<rparr>,
      api_request\<lparr>Authorization := Some ''Bearer a2'', retry := True\<rparr>] \<and>
   fst (axiosInstance api_always_401 logged_in api_request) =
     Inl (AxiosError (api_request\<lparr>Authorization := Some ''Bearer a2'', retry := True\<rparr>)
            (Some unauthorized_401))"
proof -
  let ?sent = "request_interceptor api_always_401 logged_in api_request"
  let ?w1 = "logged_in\<lparr>trace := trace logged_in @ [Dispatched ?sent]\<rparr>"
  let ?w2 = "snd (refreshTokens api_always_401 ?w1)"
  have fresh: "\<not> retry api_request"
    by (simp add: api_request_def)
  have sent: "?sent = api_request\<lparr>Authorization := Some ''Bearer a1''\<rparr>"
    by (simp add: request_interceptor_def attach_bearer_def getAccessToken_def retrieveTokens_eq
        example_defs token_keys)
  have again: "replayed (api_request\<lparr>Authorization := Some ''Bearer a1''\<rparr>) new_tokens =
      api_request\<lparr>Authorization := Some ''Bearer a2'', retry := True\<rparr>"
    by (simp add: replayed_def attach_bearer_def new_tokens_def api_request_def)
  have first: "adapter api_always_401 (trace logged_in) ?sent = Rejected (Some unauthorized_401) \<and>
      resp_status unauthorized_401 = 401"
    by (simp add: api_always_401_def unauthorized_401_def)
  have "fst (refreshTokens api_always_401 ?w1) = Inr new_tokens"
    by (simp add: refreshTokens_def Let_def retrieveTokens_eq example_defs token_keys ok_def)
  then have refresh: "refreshTokens api_always_401 ?w1 = (Inr new_tokens, ?w2)"
    by (simp add: prod_eq_iff)
  have second: "adapter api_always_401 (trace ?w2) (replayed ?sent new_tokens) =
      Rejected (Some unauthorized_401)"
    by (simp add: api_always_401_def)
  have start: "refreshes (trace logged_in) = 0" "dispatched (trace logged_in) = []"
    by (simp_all add: example_defs)
  have run: "refreshes (trace (snd (axiosInstance api_always_401 logged_in api_request))) =
        refreshes (trace logged_in) + 1 \<and>
      dispatched (trace (snd (axiosInstance api_always_401 logged_in api_request))) =
        dispatched (trace logged_in) @ [?sent, replayed ?sent new_tokens] \<and>
      axiosInstance api_always_401 logged_in api_request =
        (Inl (AxiosError (replayed ?sent new_tokens) (Some unauthorized_401)),
         ?w2\<lparr>trace := trace ?w2 @ [Dispatched (replayed ?sent new_tokens)]\<rparr>)"
    using gateway_one_refresh_one_replay [OF fresh, where e = api_always_401 and w = logged_in
        and response = unauthorized_401 and tokenResponse = new_tokens and ?w2.0 = ?w2
        and ?response2.0 = unauthorized_401]
      first refresh second
    by blast
  from run have count: "refreshes (trace (snd (axiosInstance api_always_401 logged_in api_request))) =
      refreshes (trace logged_in) + 1"
    by blast
  from run have requests: "dispatched (trace (snd (axiosInstance api_always_401 logged_in api_request))) =
      dispatched (trace logged_in) @ [?sent, replayed ?sent new_tokens]"
    by blast
  from run have "axiosInstance api_always_401 logged_in api_request =
      (Inl (AxiosError (replayed ?sent new_tokens) (Some unauthorized_401)),
       ?w2\<lparr>trace := trace ?w2 @ [Dispatched (replayed ?sent new_tokens)]\<rparr>)"
    by blast
  then have result: "fst (axiosInstance api_always_401 logged_in api_request) =
      Inl (AxiosError (replayed ?sent new_tokens) (Some unauthorized_401))"
    by simp
  show ?thesis
    using fresh by (simp add: count requests result start sent again)
qed

text \<open>
  C6, what the code does with an error that carries no response (a network error, a
  timeout): the handler's read of \<open>error.response.status\<close> raises, and the caller gets
  that \<open>TypeError\<close> in place of the error of the request.
\<close>

theorem gateway_error_without_response_is_replaced:
  assumes "adapter e (trace w) (request_interceptor e w config) = Rejected None"
  shows "fst (axiosInstance e w config) = Inl (TypeError ''status'') \<and>
         fst (axiosInstance e w config) \<noteq> Inl (AxiosError (request_interceptor e w config) None)"
  using assms by (simp add: axiosInstance_no_response)

theorem gateway_error_without_response_is_replaced_witness:
  "adapter offline (trace logged_in) (request_interceptor offline logged_in api_request) =
     Rejected None \<and>
   fst (axiosInstance offline logged_in api_request) = Inl (TypeError ''status'')"
proof -
  have no_response: "adapter offline (trace logged_in)
      (request_interceptor offline logged_in api_request) = Rejected None"
    by (simp add: offline_def)
  show ?thesis
    using gateway_error_without_response_is_replaced [OF no_response] no_response by simp
qed


end
